theory Spec2Isabelle
  imports Main "HOL-Library.Sublist"
begin

section \<open>Conventions of the embedding\<close>

text \<open>
  The development embeds the call-session orchestration of the voice sales agent:
  the persistence gateway (\<^verbatim>\<open>database/models.py\<close>, \<^verbatim>\<open>database/crud.py\<close>), the context
  assembler (\<^verbatim>\<open>ai/prompts.py\<close>), the webhook handlers (\<^verbatim>\<open>telephony/router.py\<close>,
  \<^verbatim>\<open>telephony/twilio_service.py\<close>, \<^verbatim>\<open>services/greeting_service.py\<close>) and the streaming
  endpoint (\<^verbatim>\<open>ai/router.py\<close>).

  \<^item> A Python \<^verbatim>\<open>str\<close> is a \<open>string\<close>, one \<open>char\<close> for each character, so that
    \<open>length\<close> is Python's \<^verbatim>\<open>len\<close> and \<open>take n\<close> is the slice \<^verbatim>\<open>[:n]\<close>. The only
    character of the source's constants outside ASCII, the dash U+2014 of
    \<^verbatim>\<open>BASE_INSTRUCTIONS\<close>, is written as its three UTF-8 bytes; no statement below
    depends on the length of that constant.
  \<^item> \<^verbatim>\<open>Optional[str]\<close> is \<open>string option\<close>; Python's truth test of such a value
    (\<^verbatim>\<open>if x:\<close>) is \<open>truthy\<close>: \<^verbatim>\<open>None\<close> and the empty string are false.
  \<^item> An exception is a value of \<open>exn\<close>; a function that may raise returns
    \<open>exn + 'a\<close>, with \<open>Inl\<close> for the exception. A subscript out of range raises
    \<^verbatim>\<open>IndexError\<close>.
  \<^item> The SQLAlchemy session is the explicit state \<open>database\<close>; a function that
    commits returns the new state. Log output is not modelled.
\<close>

datatype exn =
    NumberParseException
  | IndexError
  | IntegrityError
  | WebSocketDisconnect
  | RuntimeError string

text \<open>
  The values of \<open>exn\<close> are subclasses of \<^verbatim>\<open>Exception\<close>, which a clause
  \<^verbatim>\<open>except Exception\<close> catches. \<open>RuntimeError\<close> stands for the failures of the
  collaborators (reading the form, speech synthesis, the session object).
\<close>

fun truthy :: "string option \<Rightarrow> bool" where
  "truthy None = False"
| "truthy (Some s) = (s \<noteq> [])"

abbreviation nl :: string where
  "nl \<equiv> [CHR 0x0A]"

text \<open>Decimal rendering of a Python \<^verbatim>\<open>int\<close>, as an f-string field does it.\<close>

fun digits :: "nat \<Rightarrow> string" where
  "digits n =
     (if n < 10 then [''0123456789'' ! n]
      else digits (n div 10) @ [''0123456789'' ! (n mod 10)])"

declare digits.simps [simp del]

definition str_int :: "int \<Rightarrow> string" where
  "str_int k = (if k < 0 then CHR ''-'' # digits (nat (- k)) else digits (nat k))"

section \<open>The data model (\<^verbatim>\<open>database/models.py\<close>)\<close>

text \<open>
  A timestamp is a reading of the database server's clock (\<^verbatim>\<open>func.now()\<close>); the
  functions that commit take the reading as the argument \<open>now\<close>.
  The fields carry a prefix, since both tables name a column \<^verbatim>\<open>id\<close> and
  \<^verbatim>\<open>phone_number\<close>. A nullable column is an \<open>option\<close>.
\<close>

type_synonym timestamp = nat

record PersonalInfoDB =
  pi_id :: nat
  pi_phone_number :: string
  pi_call_sid :: "string option"
  pi_full_name :: "string option"
  pi_email :: "string option"
  pi_created_at :: "timestamp option"
  pi_updated_at :: "timestamp option"

record ConversationDB =
  cv_id :: nat
  cv_phone_number :: string
  cv_transcript :: string
  cv_system_message :: "string option"
  cv_timestamp :: "timestamp option"

text \<open>
  The stored state: the rows of the tables \<^verbatim>\<open>personal_info\<close> and \<^verbatim>\<open>conversations\<close>,
  in insertion order. The tables of carriers and assistants take no part in the
  call flow and are left out.
\<close>

record database =
  personal_info :: "PersonalInfoDB list"
  conversations :: "ConversationDB list"

definition empty_database :: database where
  "empty_database = \<lparr>personal_info = [], conversations = []\<rparr>"

text \<open>An integer primary key is generated as one more than the largest key in the table.\<close>

definition next_id :: "nat list \<Rightarrow> nat" where
  "next_id ids = Suc (fold max ids 0)"

section \<open>Caller identities (\<^verbatim>\<open>database/crud.py\<close>)\<close>

text \<open>
  \<^verbatim>\<open>db.query(PersonalInfoDB).filter(PersonalInfoDB.phone_number == phone_number).first()\<close>:
  the first row with that phone number, \<^verbatim>\<open>None\<close> when there is none.
\<close>

definition query_personal_info :: "database \<Rightarrow> string \<Rightarrow> PersonalInfoDB option" where
  "query_personal_info db phone_number =
     find (\<lambda>r. pi_phone_number r = phone_number) (personal_info db)"

text \<open>
  \<^verbatim>\<open>db.add(new_record); db.commit()\<close> for a new row of \<^verbatim>\<open>personal_info\<close>. The columns
  \<^verbatim>\<open>phone_number\<close> and \<^verbatim>\<open>call_sid\<close> are declared \<^verbatim>\<open>unique=True\<close>: the insert is
  rejected with \<^verbatim>\<open>IntegrityError\<close> when another row holds the same phone number or
  the same call identifier (rows without a call identifier never collide), and the
  table stays as it was. \<^verbatim>\<open>created_at\<close> has the server default \<^verbatim>\<open>func.now()\<close>;
  \<^verbatim>\<open>updated_at\<close> has none.
\<close>

definition commit_insert ::
  "timestamp \<Rightarrow> database \<Rightarrow> string \<Rightarrow> string option \<Rightarrow> exn + database" where
  "commit_insert now db phone_number call_sid =
     (if list_ex (\<lambda>r. pi_phone_number r = phone_number) (personal_info db)
         \<or> (call_sid \<noteq> None \<and> list_ex (\<lambda>r. pi_call_sid r = call_sid) (personal_info db))
      then Inl IntegrityError
      else Inr (db\<lparr>personal_info := personal_info db @
        [\<lparr>pi_id = next_id (map pi_id (personal_info db)),
          pi_phone_number = phone_number,
          pi_call_sid = call_sid,
          pi_full_name = None,
          pi_email = None,
          pi_created_at = Some now,
          pi_updated_at = None\<rparr>]\<rparr>))"

text \<open>
  \<^verbatim>\<open>db.commit()\<close> after attribute writes that turned the loaded row \<open>old\<close> into
  \<open>new\<close>; the callers commit only when an attribute changed. The row is addressed by
  its primary key. A changed call identifier that another row already holds
  violates the unique constraint. \<^verbatim>\<open>updated_at\<close> is declared
  \<^verbatim>\<open>onupdate=func.now()\<close>, so every update statement also sets it to the clock.
\<close>

definition commit_update ::
  "timestamp \<Rightarrow> database \<Rightarrow> PersonalInfoDB \<Rightarrow> PersonalInfoDB \<Rightarrow> exn + database" where
  "commit_update now db old new =
     (if pi_call_sid new \<noteq> pi_call_sid old \<and> pi_call_sid new \<noteq> None
         \<and> list_ex (\<lambda>r. pi_id r \<noteq> pi_id old \<and> pi_call_sid r = pi_call_sid new)
              (personal_info db)
      then Inl IntegrityError
      else Inr (db\<lparr>personal_info :=
        map (\<lambda>r. if pi_id r = pi_id old then new\<lparr>pi_updated_at := Some now\<rparr> else r)
          (personal_info db)\<rparr>))"

text \<open>\<^verbatim>\<open>get_or_create_personal_info\<close> (lines 12 to 51).\<close>

definition get_or_create_personal_info ::
  "timestamp \<Rightarrow> database \<Rightarrow> string \<Rightarrow> string option \<Rightarrow> exn + (string option \<times> database)" where
  "get_or_create_personal_info now db phone_number call_sid =
     (case query_personal_info db phone_number of
        Some record \<Rightarrow>
          if truthy call_sid \<and> pi_call_sid record \<noteq> call_sid then
            (case commit_update now db record (record\<lparr>pi_call_sid := call_sid\<rparr>) of
               Inl e \<Rightarrow> Inl e
             | Inr db' \<Rightarrow> Inr (pi_full_name record, db'))
          else Inr (pi_full_name record, db)
      | None \<Rightarrow>
          (case commit_insert now db phone_number call_sid of
             Inl e \<Rightarrow> Inl e
           | Inr db' \<Rightarrow> Inr (None, db')))"

text \<open>
  \<^verbatim>\<open>update_personal_info\<close> (lines 54 to 88). The two attribute writes are the local
  steps \<open>set_name\<close> and \<open>set_email\<close>; \<open>updated\<close> is the flag of the source.
\<close>

definition update_personal_info ::
  "timestamp \<Rightarrow> database \<Rightarrow> string \<Rightarrow> string option \<Rightarrow> string option \<Rightarrow> exn + (bool \<times> database)" where
  "update_personal_info now db phone_number name email =
     (case query_personal_info db phone_number of
        Some record \<Rightarrow>
          (let set_name = truthy name \<and> pi_full_name record \<noteq> name;
               record1 = (if set_name then record\<lparr>pi_full_name := name\<rparr> else record);
               set_email = truthy email \<and> pi_email record1 \<noteq> email;
               record2 = (if set_email then record1\<lparr>pi_email := email\<rparr> else record1);
               updated = (set_name \<or> set_email)
           in if updated then
                (case commit_update now db record record2 of
                   Inl e \<Rightarrow> Inl e
                 | Inr db' \<Rightarrow> Inr (True, db'))
              else Inr (False, db))
      | None \<Rightarrow> Inr (False, db))"

section \<open>Conversations (\<^verbatim>\<open>database/crud.py\<close>)\<close>

text \<open>
  \<^verbatim>\<open>get_past_conversations\<close>: filter by phone number, order by descending id, keep
  the first \<open>limit\<close> rows, project to \<open>(transcript, system_message)\<close>.
\<close>

definition get_past_conversations ::
  "database \<Rightarrow> string \<Rightarrow> nat \<Rightarrow> (string \<times> string option) list" where
  "get_past_conversations db phone_number limit =
     map (\<lambda>conv. (cv_transcript conv, cv_system_message conv))
       (take limit
         (rev (sort_key cv_id
           (filter (\<lambda>conv. cv_phone_number conv = phone_number) (conversations db)))))"

text \<open>\<^verbatim>\<open>save_conversation\<close>: a pure insert, committed at once.\<close>

definition save_conversation ::
  "timestamp \<Rightarrow> database \<Rightarrow> string \<Rightarrow> string \<Rightarrow> string option \<Rightarrow> database" where
  "save_conversation now db phone_number transcript system_message =
     db\<lparr>conversations := conversations db @
       [\<lparr>cv_id = next_id (map cv_id (conversations db)),
         cv_phone_number = phone_number,
         cv_transcript = transcript,
         cv_system_message = system_message,
         cv_timestamp = Some now\<rparr>]\<rparr>"

section \<open>The context assembler (\<^verbatim>\<open>ai/prompts.py\<close>)\<close>

definition BASE_INSTRUCTIONS :: string where
  "BASE_INSTRUCTIONS =
     nl @ ''You are Alex, a friendly and professional sales agent for Super Truck AI,''
   @ nl @ ''a logistics software designed to help trucking carriers optimize their operations.''
   @ nl @ ''Your goal is to assist callers by understanding their needs, explaining how Super Truck AI''
   @ nl @ ''can benefit their business (load dispatching, invoicing, accounting, IFTA filing, carrier optimization),''
   @ nl @ ''and guiding them toward solutions'' @ [CHR 0xE2, CHR 0x80, CHR 0x94]
        @ ''never push sales aggressively. Help carriers increase profits''
   @ nl @ ''and reduce costs by streamlining operations. Be concise and clear.''
   @ nl"

definition RETURNING_CALLER_INSTRUCTIONS :: string where
  "RETURNING_CALLER_INSTRUCTIONS =
     nl @ ''Remember you have spoken to this caller before. Refer to the previous conversation context below.''
   @ nl @ ''Continue the conversation naturally, acknowledging past discussions if relevant.''
   @ nl"

text \<open>
  Line 99: \<^verbatim>\<open>summary = transcript[:500] + '...' if len(transcript) > 500 else transcript\<close>.
  The conditional expression binds weaker than \<^verbatim>\<open>+\<close>.
\<close>

definition summary :: "string \<Rightarrow> string" where
  "summary transcript =
     (if length transcript > 500 then take 500 transcript @ ''...'' else transcript)"

text \<open>
  Line 101, the text one pass of the loop appends:
  \<^verbatim>\<open>f"Call {len(past_conversations)-i}:\n{summary}\n\n"\<close>, where \<open>n\<close> is
  \<^verbatim>\<open>len(past_conversations)\<close> and \<open>i\<close> the index that \<^verbatim>\<open>enumerate\<close> supplies.
\<close>

definition digest_entry :: "int \<Rightarrow> int \<Rightarrow> string \<Rightarrow> string" where
  "digest_entry n i transcript =
     ''Call '' @ str_int (n - i) @ '':'' @ nl @ summary transcript @ nl @ nl"

text \<open>
  Lines 96 to 101: the loop over \<^verbatim>\<open>enumerate(reversed(past_conversations))\<close>. The
  second argument is the running index, the third what is left of the reversed
  list, the last the text accumulated in \<^verbatim>\<open>dynamic_context\<close>.
\<close>

fun digest_loop ::
  "int \<Rightarrow> int \<Rightarrow> (string \<times> string option) list \<Rightarrow> string \<Rightarrow> string" where
  "digest_loop n i [] dynamic_context = dynamic_context"
| "digest_loop n i ((transcript, _) # rest) dynamic_context =
     digest_loop n (i + 1) rest (dynamic_context @ digest_entry n i transcript)"

text \<open>Lines 93 to 103: header, loop, footer.\<close>

definition dynamic_context :: "(string \<times> string option) list \<Rightarrow> string" where
  "dynamic_context past_conversations =
     digest_loop (int (length past_conversations)) 0 (rev past_conversations)
       (nl @ ''--- Previous Conversation Summary ---'' @ nl)
     @ ''--- End of Summary ---'' @ nl"

text \<open>
  \<^verbatim>\<open>generate_openai_instructions\<close>. The stored system message of the latest
  conversation is read into a local variable and never used (lines 79 to 89), so
  it has no counterpart here. The limit of the fetch is the default of
  \<^verbatim>\<open>get_past_conversations\<close>, 3.
\<close>

definition generate_openai_instructions ::
  "database \<Rightarrow> string option \<Rightarrow> string \<times> bool" where
  "generate_openai_instructions db phone_number =
     (if truthy phone_number then
        (let past_conversations = get_past_conversations db (the phone_number) 3 in
         if past_conversations \<noteq> [] then
           (BASE_INSTRUCTIONS @ nl @ RETURNING_CALLER_INSTRUCTIONS
              @ dynamic_context past_conversations, True)
         else (BASE_INSTRUCTIONS, False))
      else (BASE_INSTRUCTIONS, False))"

section \<open>Call-control markup (\<^verbatim>\<open>telephony/twilio_service.py\<close>)\<close>

text \<open>
  The documents that the program builds with the carrier's helper library
  (\<^verbatim>\<open>VoiceResponse\<close>, \<^verbatim>\<open>Connect\<close>) are lists of verbs; \<open>to_xml\<close> is the library's
  \<^verbatim>\<open>str(response)\<close>, which writes the XML declaration first, escapes character data
  and attribute values, and closes an empty element with \<^verbatim>\<open> />\<close>. \<open>Hangup\<close> is never
  serialised by the library here: it occurs in a literal of \<^verbatim>\<open>router.py\<close> only, and
  is written as that literal writes it.
\<close>

datatype verb =
    Play string
  | Pause nat
  | Say string
  | Connect_Stream string
  | Hangup

abbreviation dq :: string where
  "dq \<equiv> [CHR 0x22]"

definition escape_cdata :: "string \<Rightarrow> string" where
  "escape_cdata text =
     concat (map (\<lambda>c. if c = CHR ''&'' then ''&amp;''
                       else if c = CHR ''<'' then ''&lt;''
                       else if c = CHR ''>'' then ''&gt;''
                       else [c]) text)"

definition escape_attrib :: "string \<Rightarrow> string" where
  "escape_attrib text =
     concat (map (\<lambda>c. if c = CHR ''&'' then ''&amp;''
                       else if c = CHR ''<'' then ''&lt;''
                       else if c = CHR ''>'' then ''&gt;''
                       else if c = CHR 0x22 then ''&quot;''
                       else if c = CHR 0x0D then ''&#13;''
                       else if c = CHR 0x0A then ''&#10;''
                       else if c = CHR 0x09 then ''&#09;''
                       else [c]) text)"

fun xml_verb :: "verb \<Rightarrow> string" where
  "xml_verb (Play url) = ''<Play>'' @ escape_cdata url @ ''</Play>''"
| "xml_verb (Pause n) = ''<Pause length='' @ dq @ digits n @ dq @ '' />''"
| "xml_verb (Say message) = ''<Say>'' @ escape_cdata message @ ''</Say>''"
| "xml_verb (Connect_Stream url) =
     ''<Connect><Stream url='' @ dq @ escape_attrib url @ dq @ '' /></Connect>''"
| "xml_verb Hangup = ''<Hangup/>''"

definition to_xml :: "bool \<Rightarrow> verb list \<Rightarrow> string" where
  "to_xml xml_declaration verbs =
     (if xml_declaration
      then ''<?xml version='' @ dq @ ''1.0'' @ dq @ '' encoding='' @ dq @ ''UTF-8'' @ dq @ ''?>''
      else [])
     @ ''<Response>'' @ concat (map xml_verb verbs) @ ''</Response>''"

text \<open>
  \<^verbatim>\<open>s.split(sep)\<close> for a non-empty separator: the pieces between the occurrences of
  \<open>sep\<close>, found from the left without overlap. \<open>cur\<close> is the piece being read.
\<close>

function split_from :: "string \<Rightarrow> string \<Rightarrow> string \<Rightarrow> string list" where
  "split_from sep cur [] = [cur]"
| "split_from sep cur (c # cs) =
     (if sep \<noteq> [] \<and> prefix sep (c # cs)
      then cur # split_from sep [] (drop (length sep) (c # cs))
      else split_from sep (cur @ [c]) cs)"
  by pat_completeness auto
termination
  by (relation "measure (\<lambda>(sep, cur, s). length s)") auto

definition split :: "string \<Rightarrow> string \<Rightarrow> string list" where
  "split s sep = split_from sep [] s"

definition subscript :: "'a list \<Rightarrow> nat \<Rightarrow> exn + 'a" where
  "subscript xs i = (if i < length xs then Inr (xs ! i) else Inl IndexError)"

text \<open>
  Line 57 and line 98:
  \<^verbatim>\<open>f"wss://{settings.BASE_URL.split('//')[1]}/media-stream/{call_sid}/{phone_number}"\<close>.
\<close>

definition websocket_url :: "string \<Rightarrow> string \<Rightarrow> string \<Rightarrow> exn + string" where
  "websocket_url BASE_URL call_sid phone_number =
     (case subscript (split BASE_URL ''//'') 1 of
        Inl e \<Rightarrow> Inl e
      | Inr host \<Rightarrow> Inr (''wss://'' @ host @ ''/media-stream/'' @ call_sid @ ''/'' @ phone_number))"

definition create_greeting_and_connect_stream_twiml ::
  "string \<Rightarrow> string option \<Rightarrow> string \<Rightarrow> string \<Rightarrow> exn + string" where
  "create_greeting_and_connect_stream_twiml BASE_URL greeting_audio_url call_sid phone_number =
     (let response =
            (if truthy greeting_audio_url then [Play (the greeting_audio_url), Pause 1]
             else [Say ''Connecting your call.''])
      in case websocket_url BASE_URL call_sid phone_number of
           Inl e \<Rightarrow> Inl e
         | Inr url \<Rightarrow> Inr (to_xml True (response @ [Connect_Stream url])))"


section \<open>The collaborators of the webhook handlers\<close>

text \<open>
  What the handlers call outside the repository: the phone number library
  (\<open>pn_parse\<close> raises \<^verbatim>\<open>NumberParseException\<close> on text it cannot read), the speech
  synthesis together with the write of the audio file (\<open>speech_to_file\<close> takes the
  text and the path and returns the exception raised, if any), and the setting
  \<^verbatim>\<open>BASE_URL\<close>. \<open>'n\<close> is the library's type of parsed numbers.
\<close>

record 'n collaborators =
  pn_parse :: "string \<Rightarrow> exn + 'n"
  pn_is_valid_number :: "'n \<Rightarrow> bool"
  pn_format_number :: "'n \<Rightarrow> string"
  speech_to_file :: "string \<Rightarrow> string \<Rightarrow> exn option"
  BASE_URL :: string

text \<open>
  A request: the outcome of \<^verbatim>\<open>await request.form()\<close>, which is the form or the
  exception raised while reading it, and \<^verbatim>\<open>request.base_url\<close>.
\<close>

record request =
  form :: "exn + (string \<rightharpoonup> string)"
  base_url :: string

datatype response = Response (content: string) (media_type: string)

section \<open>The greeting (\<^verbatim>\<open>services/greeting_service.py\<close>)\<close>

definition get_greeting_url ::
  "'n collaborators \<Rightarrow> string option \<Rightarrow> string \<Rightarrow> exn + string" where
  "get_greeting_url env full_name phone_number_cleaned =
     (let greeting_filename = ''greeting_'' @ phone_number_cleaned @ ''.mp3'';
          audio_file_path = ''temp_audio_path/'' @ greeting_filename;
          greeting_text =
            (if truthy full_name
             then ''Hi '' @ the full_name
                    @ '', welcome back to Super Truck AI. How can I help you today?''
             else ''Hi there! I'' @ [CHR 0x27]
                    @ ''m Alex, your sales agent at Super Truck AI. How can I assist you?'')
      in case speech_to_file env greeting_text audio_file_path of
           Some e \<Rightarrow> Inl e
         | None \<Rightarrow> Inr (''/temp_audio_path/'' @ greeting_filename))"

section \<open>The webhook handlers (\<^verbatim>\<open>telephony/router.py\<close>)\<close>

record twilio_data =
  d_call_sid :: "string option"
  d_from_number :: "string option"
  d_to_number :: "string option"
  d_speech_result :: "string option"

text \<open>
  Lines 39 to 42, and again lines 43 to 46: a raw number that is present is parsed,
  and kept in E.164 format if the library finds it valid.
\<close>

definition clean_number :: "'n collaborators \<Rightarrow> string option \<Rightarrow> exn + string option" where
  "clean_number env raw =
     (if truthy raw then
        (case pn_parse env (the raw) of
           Inl e \<Rightarrow> Inl e
         | Inr parsed \<Rightarrow>
             Inr (if pn_is_valid_number env parsed then Some (pn_format_number env parsed)
                  else None))
      else Inr None)"

text \<open>
  \<^verbatim>\<open>parse_twilio_request\<close>. One \<^verbatim>\<open>try\<close> block holds both numbers: a
  \<^verbatim>\<open>NumberParseException\<close> from the caller's number leaves both numbers unset, one
  from the dialled number leaves that one unset. Any other exception leaves the
  function.
\<close>

definition parse_twilio_request :: "'n collaborators \<Rightarrow> request \<Rightarrow> exn + twilio_data" where
  "parse_twilio_request env req =
     (case form req of
        Inl e \<Rightarrow> Inl e
      | Inr form_data \<Rightarrow>
          (let data = \<lparr>d_call_sid = form_data ''CallSid'', d_from_number = None,
                       d_to_number = None, d_speech_result = form_data ''SpeechResult''\<rparr>
           in case clean_number env (form_data ''From'') of
                Inl e \<Rightarrow> if e = NumberParseException then Inr data else Inl e
              | Inr from_number \<Rightarrow>
                  (case clean_number env (form_data ''To'') of
                     Inl e \<Rightarrow>
                       if e = NumberParseException
                       then Inr (data\<lparr>d_from_number := from_number\<rparr>)
                       else Inl e
                   | Inr to_number \<Rightarrow>
                       Inr (data\<lparr>d_from_number := from_number, d_to_number := to_number\<rparr>))))"

abbreviation xml :: string where
  "xml \<equiv> ''application/xml''"

text \<open>
  Lines 72 to 83 of \<^verbatim>\<open>handle_incoming\<close>, which are lines 112 to 120 of
  \<^verbatim>\<open>handle_agent_incoming\<close>: resolve the identity, obtain the greeting, build the
  markup. The result is the exception raised or the response, with the stored
  state at that point.
\<close>

definition greet_and_connect ::
  "'n collaborators \<Rightarrow> timestamp \<Rightarrow> request \<Rightarrow> database \<Rightarrow> string \<Rightarrow> string
     \<Rightarrow> (exn + response) \<times> database" where
  "greet_and_connect env now req db call_sid phone_number =
     (case get_or_create_personal_info now db phone_number (Some call_sid) of
        Inl e \<Rightarrow> (Inl e, db)
      | Inr (full_name, db') \<Rightarrow>
          (let cleaned_number = filter (\<lambda>c. c \<noteq> CHR ''+'') phone_number in
           case get_greeting_url env full_name cleaned_number of
             Inl e \<Rightarrow> (Inl e, db')
           | Inr greeting_url_path \<Rightarrow>
               (let full_greeting_url =
                      base_url req @ dropWhile (\<lambda>c. c = CHR ''/'') greeting_url_path
                in case create_greeting_and_connect_stream_twiml (BASE_URL env)
                          (Some full_greeting_url) call_sid phone_number of
                     Inl e \<Rightarrow> (Inl e, db')
                   | Inr twiml_content \<Rightarrow> (Inr (Response twiml_content xml), db'))))"

definition handle_incoming ::
  "'n collaborators \<Rightarrow> timestamp \<Rightarrow> request \<Rightarrow> database \<Rightarrow> response \<times> database" where
  "handle_incoming env now req db =
     (case parse_twilio_request env req of
        Inl e \<Rightarrow> (Response ''<Response><Say>An internal error occurred.</Say></Response>'' xml, db)
      | Inr data \<Rightarrow>
          if \<not> truthy (d_call_sid data) \<or> \<not> truthy (d_from_number data) then
            (Response ''<Response><Say>Error processing call.</Say></Response>'' xml, db)
          else
            (case greet_and_connect env now req db
                    (the (d_call_sid data)) (the (d_from_number data)) of
               (Inl e, db') \<Rightarrow>
                 (Response ''<Response><Say>An internal error occurred.</Say></Response>'' xml, db')
             | (Inr r, db') \<Rightarrow> (r, db')))"

definition handle_agent_incoming ::
  "'n collaborators \<Rightarrow> timestamp \<Rightarrow> request \<Rightarrow> database \<Rightarrow> response \<times> database" where
  "handle_agent_incoming env now req db =
     (case parse_twilio_request env req of
        Inl e \<Rightarrow> (Response ''<Response><Say>An internal error occurred.</Say></Response>'' xml, db)
      | Inr data \<Rightarrow>
          if \<not> truthy (d_call_sid data) \<or> \<not> truthy (d_from_number data)
             \<or> \<not> truthy (d_to_number data) then
            (Response ''<Response><Say>Error processing call.</Say></Response>'' xml, db)
          else
            (case greet_and_connect env now req db
                    (the (d_call_sid data)) (the (d_from_number data)) of
               (Inl e, db') \<Rightarrow>
                 (Response ''<Response><Say>An internal error occurred.</Say></Response>'' xml, db')
             | (Inr r, db') \<Rightarrow> (r, db')))"


section \<open>The streaming endpoint (\<^verbatim>\<open>ai/router.py\<close>)\<close>

text \<open>
  What leaves a coroutine of the endpoint: a subclass of \<^verbatim>\<open>Exception\<close>, or the
  cancellation of the task, which \<^verbatim>\<open>except Exception\<close> does not catch and
  \<^verbatim>\<open>finally\<close> still sees.
\<close>

datatype raised = Exception exn | CancelledError

text \<open>
  The two methods the endpoint calls on the session handler. Each takes the state
  of the handler and returns what it raised, if anything, with the state it left.
\<close>

record 'h handler_ops =
  start :: "'h \<Rightarrow> raised option \<times> 'h"
  stop :: "'h \<Rightarrow> raised option \<times> 'h"

datatype call = Start | Stop

text \<open>
  \<^verbatim>\<open>media_stream_endpoint\<close>. \<open>accept\<close> is the outcome of \<^verbatim>\<open>await websocket.accept()\<close>;
  \<open>handler\<close> is the object that the constructor returns on line 30. The result is
  what the endpoint raises, the handler as the endpoint leaves it (none when the
  handshake failed), and the calls made on the handler, in order. The clauses for
  \<^verbatim>\<open>WebSocketDisconnect\<close> and for \<^verbatim>\<open>Exception\<close> differ in the log line only. An
  exception raised by \<^verbatim>\<open>stop\<close> inside a clause is kept while \<^verbatim>\<open>finally\<close> runs, and
  is replaced by one that \<^verbatim>\<open>finally\<close> raises itself.
\<close>

definition media_stream_endpoint ::
  "raised option \<Rightarrow> 'h handler_ops \<Rightarrow> 'h \<Rightarrow> raised option \<times> 'h option \<times> call list" where
  "media_stream_endpoint accept ops handler =
     (case accept of
        Some r \<Rightarrow> (Some r, None, [])
      | None \<Rightarrow>
          (case start ops handler of
             (None, h1) \<Rightarrow>
               (case stop ops h1 of (r2, h2) \<Rightarrow> (r2, Some h2, [Start, Stop]))
           | (Some (Exception e), h1) \<Rightarrow>
               (case stop ops h1 of (r2, h2) \<Rightarrow>
                  (case stop ops h2 of (r3, h3) \<Rightarrow>
                     (if r3 \<noteq> None then r3 else r2, Some h3, [Start, Stop, Stop])))
           | (Some CancelledError, h1) \<Rightarrow>
               (case stop ops h1 of (r2, h2) \<Rightarrow>
                  (if r2 \<noteq> None then r2 else Some CancelledError, Some h2, [Start, Stop]))))"

subsection \<open>The session handler\<close>

datatype lifecycle = CREATED | RUNNING | STOPPED

text \<open>
  The state of one session: the call it belongs to, its lifecycle state, and how
  many times it has released the resources it holds.
\<close>

record session =
  s_call_sid :: string
  s_phone_number :: string
  s_state :: lifecycle
  s_releases :: nat

text \<open>
  Modelled from the spec: the constructor of \<^verbatim>\<open>RealtimeOpenAIHandler\<close>
  (\<^verbatim>\<open>ai/openai_services.py\<close>, not among the sources). A session is keyed by the call
  identifier and the phone number of the connection's address and starts in the
  state \<^verbatim>\<open>CREATED\<close>.
\<close>

definition RealtimeOpenAIHandler :: "string \<Rightarrow> string \<Rightarrow> session" where
  "RealtimeOpenAIHandler call_sid phone_number =
     \<lparr>s_call_sid = call_sid, s_phone_number = phone_number, s_state = CREATED,
      s_releases = 0\<rparr>"

text \<open>
  Modelled from the spec: \<^verbatim>\<open>RealtimeOpenAIHandler.stop\<close> (\<^verbatim>\<open>ai/openai_services.py\<close>,
  not among the sources). It releases the resources the session holds and leaves
  the session \<^verbatim>\<open>STOPPED\<close>; on a session that is already stopped it neither faults
  nor releases again.
\<close>

definition session_stop :: "session \<Rightarrow> raised option \<times> session" where
  "session_stop s =
     (if s_state s = STOPPED then (None, s)
      else (None, s\<lparr>s_state := STOPPED, s_releases := s_releases s + 1\<rparr>))"

text \<open>
  The handler as the endpoint sees it. \<^verbatim>\<open>start\<close> is opaque: \<open>run\<close> is any behaviour
  of it, so it may return, raise, be cancelled, and leave the session in any state.
\<close>

definition session_ops :: "(session \<Rightarrow> raised option \<times> session) \<Rightarrow> session handler_ops" where
  "session_ops run = \<lparr>start = run, stop = session_stop\<rparr>"

section \<open>Example states\<close>

text \<open>One caller with two stored conversations, saved in this order.\<close>

definition two_calls :: database where
  "two_calls =
     save_conversation 20
       (save_conversation 10 empty_database ''+15551234567'' ''first'' None)
       ''+15551234567'' ''second'' None"

text \<open>One known caller, never updated since the record was created.\<close>

definition alice_row :: PersonalInfoDB where
  "alice_row =
     \<lparr>pi_id = 1, pi_phone_number = ''+15551230001'', pi_call_sid = Some ''CA1'',
      pi_full_name = Some ''Alice'', pi_email = None,
      pi_created_at = Some 5, pi_updated_at = None\<rparr>"

definition db_alice :: database where
  "db_alice = \<lparr>personal_info = [alice_row], conversations = []\<rparr>"

text \<open>
  Collaborators for the examples: a number is read when it starts with \<^verbatim>\<open>+\<close>, is
  valid from eight characters on and is already in E.164 format; speech synthesis
  succeeds.
\<close>

definition env0 :: "string collaborators" where
  "env0 =
     \<lparr>pn_parse = (\<lambda>s. if prefix ''+'' s then Inr s else Inl NumberParseException),
      pn_is_valid_number = (\<lambda>n. 8 \<le> length n),
      pn_format_number = (\<lambda>n. n),
      speech_to_file = (\<lambda>text path. None),
      BASE_URL = ''http://localhost:8000''\<rparr>"

text \<open>An inbound request without \<^verbatim>\<open>CallSid\<close>, and a complete one.\<close>

definition req_no_call_sid :: request where
  "req_no_call_sid =
     \<lparr>form = Inr [''From'' \<mapsto> ''+15551234567''], base_url = ''http://localhost:8000/''\<rparr>"


text \<open>A session whose \<^verbatim>\<open>start\<close> runs until the carrier disconnects.\<close>

definition run_until_disconnect :: "session \<Rightarrow> raised option \<times> session" where
  "run_until_disconnect s = (Some (Exception WebSocketDisconnect), s\<lparr>s_state := RUNNING\<rparr>)"

text \<open>One caller with one stored conversation of 501 characters.\<close>

definition one_long_call :: database where
  "one_long_call =
     save_conversation 10 empty_database ''+15551234567'' (replicate 501 CHR ''a'') None"

section \<open>Properties of the context assembler\<close>

lemma fetch_nonempty:
  assumes "c \<in> set (conversations db)" and "cv_phone_number c = p" and "0 < limit"
  shows "get_past_conversations db p limit \<noteq> []"
proof -
  let ?rows = "filter (\<lambda>conv. cv_phone_number conv = p) (conversations db)"
  have "c \<in> set ?rows" using assms by simp
  then have "length (rev (sort_key cv_id ?rows)) \<noteq> 0"
    by (cases ?rows) auto
  then have "take limit (rev (sort_key cv_id ?rows)) \<noteq> []"
    using assms(3) by (cases "rev (sort_key cv_id ?rows)"; cases limit) auto
  then show ?thesis by (simp add: get_past_conversations_def)
qed

lemma fetch_no_history [simp]:
  "get_past_conversations (db\<lparr>conversations := []\<rparr>) p limit = []"
  by (simp add: get_past_conversations_def)

lemma two_calls_fetch:
  "get_past_conversations two_calls ''+15551234567'' 3 = [(''second'', None), (''first'', None)]"
  by (simp add: two_calls_def get_past_conversations_def save_conversation_def
      empty_database_def next_id_def)

text \<open>
  The fetch is newest first: a conversation just saved for a phone number heads the
  list fetched for that number, before what was fetched until then.
\<close>

lemma fold_max_ge:
  "(a::nat) \<le> fold max xs a \<and> (\<forall>x \<in> set xs. x \<le> fold max xs a)"
proof (induction xs arbitrary: a)
  case Nil
  show ?case by simp
next
  case (Cons y ys)
  have "max y a \<le> fold max ys (max y a)" and "\<forall>x \<in> set ys. x \<le> fold max ys (max y a)"
    using Cons.IH [of "max y a"] by auto
  then show ?case by auto
qed

lemma next_id_fresh: "x \<in> set ids \<Longrightarrow> x < next_id ids"
  using fold_max_ge [of 0 ids] by (auto simp: next_id_def less_Suc_eq_le)

lemma insort_key_snoc:
  "f y \<le> f x \<Longrightarrow> insort_key f y (zs @ [x]) = insort_key f y zs @ [x]"
  by (induction zs) auto

lemma sort_key_snoc:
  assumes "\<forall>y \<in> set ys. f y \<le> f x"
  shows "sort_key f (ys @ [x]) = sort_key f ys @ [x]"
  using assms
proof (induction ys)
  case Nil
  show ?case by simp
next
  case (Cons y ys)
  then have "sort_key f (ys @ [x]) = sort_key f ys @ [x]" and "f y \<le> f x" by auto
  then show ?case by (simp add: insort_key_snoc)
qed

lemma fetch_after_save:
  "get_past_conversations (save_conversation now db p t m) p (Suc n) =
     (t, m) # get_past_conversations db p n"
proof -
  let ?new = "\<lparr>cv_id = next_id (map cv_id (conversations db)), cv_phone_number = p,
               cv_transcript = t, cv_system_message = m, cv_timestamp = Some now\<rparr>"
  let ?rows = "filter (\<lambda>conv. cv_phone_number conv = p) (conversations db)"
  have "\<forall>y \<in> set ?rows. cv_id y \<le> cv_id ?new"
    using next_id_fresh [of _ "map cv_id (conversations db)"] by (auto intro: less_imp_le)
  then have "sort_key cv_id (?rows @ [?new]) = sort_key cv_id ?rows @ [?new]"
    by (rule sort_key_snoc)
  then show ?thesis
    by (simp add: get_past_conversations_def save_conversation_def)
qed

text \<open>
  The digest in closed form. Entry \<open>j\<close> of the reversed list, the \<open>j\<close>-th oldest
  of the fetched conversations counted from 0, is printed in position \<open>j\<close> under the
  label \<open>N - j\<close>, where \<open>N\<close> is the number of fetched conversations.
\<close>

lemma digest_loop_enumerate:
  "digest_loop n (int k) xs acc =
     acc @ concat (map (\<lambda>(j, conv). digest_entry n (int j) (fst conv)) (enumerate k xs))"
proof (induction xs arbitrary: k acc)
  case Nil
  show ?case by simp
next
  case (Cons x xs)
  obtain t m where x: "x = (t, m)" by (cases x)
  have "digest_loop n (int k) (x # xs) acc
      = digest_loop n (int (Suc k)) xs (acc @ digest_entry n (int k) t)"
    by (simp add: x add.commute)
  also have "\<dots> = (acc @ digest_entry n (int k) t)
      @ concat (map (\<lambda>(j, conv). digest_entry n (int j) (fst conv)) (enumerate (Suc k) xs))"
    by (rule Cons.IH)
  finally show ?case by (simp add: x)
qed

lemma dynamic_context_labels:
  "dynamic_context past_conversations =
     nl @ ''--- Previous Conversation Summary ---'' @ nl
     @ concat (map (\<lambda>(j, conv).
          ''Call '' @ str_int (int (length past_conversations) - int j) @ '':'' @ nl
            @ summary (fst conv) @ nl @ nl)
        (enumerate 0 (rev past_conversations)))
     @ ''--- End of Summary ---'' @ nl"
  using digest_loop_enumerate [of "int (length past_conversations)" 0 "rev past_conversations"]
  by (simp add: dynamic_context_def digest_entry_def)

text \<open>
  C1. The claim: the digest lists the stored conversations oldest first and labels
  them 1 for the oldest up to N for the newest. The order is as claimed, the labels
  are not: line 101 prints \<^verbatim>\<open>len(past_conversations)-i\<close>, which counts down
  (\<open>dynamic_context_labels\<close>), against the comment on that line
  (\<^verbatim>\<open>Call numbers count up (1, 2, 3...)\<close>). For the
  caller of \<open>two_calls\<close> the older conversation is printed first under the label 2
  and the newer one second under the label 1.
\<close>

theorem digest_labels_count_down:
  "generate_openai_instructions two_calls (Some ''+15551234567'') =
     (BASE_INSTRUCTIONS @ nl @ RETURNING_CALLER_INSTRUCTIONS
        @ nl @ ''--- Previous Conversation Summary ---'' @ nl
        @ ''Call 2:'' @ nl @ ''first'' @ nl @ nl
        @ ''Call 1:'' @ nl @ ''second'' @ nl @ nl
        @ ''--- End of Summary ---'' @ nl, True)"
  by (simp add: generate_openai_instructions_def two_calls_fetch dynamic_context_def
      digest_entry_def summary_def str_int_def digits.simps)

text \<open>
  What \<open>generate_openai_instructions\<close> returns for a caller whose fetch is not
  empty, and what it returns when nothing is stored.
\<close>

lemma returning_output:
  assumes "p \<noteq> []" and "get_past_conversations db p 3 \<noteq> []"
  shows "generate_openai_instructions db (Some p) =
    (BASE_INSTRUCTIONS @ nl @ RETURNING_CALLER_INSTRUCTIONS
       @ dynamic_context (get_past_conversations db p 3), True)"
  using assms by (simp add: generate_openai_instructions_def Let_def)

lemma no_history_output:
  "generate_openai_instructions (db\<lparr>conversations := []\<rparr>) phone_number = (BASE_INSTRUCTIONS, False)"
  by (simp add: generate_openai_instructions_def Let_def)

lemma one_long_call_fetch:
  "get_past_conversations one_long_call ''+15551234567'' 3 = [(replicate 501 CHR ''a'', None)]"
  by (simp add: one_long_call_def get_past_conversations_def save_conversation_def
      empty_database_def next_id_def)

text \<open>
  C5. For a caller (a non-empty phone number) with at least one stored conversation:
  without the history \<open>generate_openai_instructions\<close> returns \<open>BASE_INSTRUCTIONS\<close>
  and false; with it, the fetch \<open>past\<close> is not empty, the flag is true, and the text
  is the text without history followed by a line break, the returning-caller
  notice, the opening line of the digest, one entry for each fetched conversation
  from the oldest to the newest (its label, then its summary), and the closing
  line of the digest. The text without history is a strict prefix of it.
\<close>

theorem returning_caller_extends_no_history:
  assumes "p \<noteq> []" and "c \<in> set (conversations db)" and "cv_phone_number c = p"
    and "past = get_past_conversations db p 3"
  shows "generate_openai_instructions (db\<lparr>conversations := []\<rparr>) (Some p)
           = (BASE_INSTRUCTIONS, False)
    \<and> past \<noteq> []
    \<and> snd (generate_openai_instructions db (Some p)) = True
    \<and> fst (generate_openai_instructions db (Some p)) =
        fst (generate_openai_instructions (db\<lparr>conversations := []\<rparr>) (Some p))
          @ nl @ RETURNING_CALLER_INSTRUCTIONS
          @ nl @ ''--- Previous Conversation Summary ---'' @ nl
          @ concat (map (\<lambda>(j, transcript, system_message).
               ''Call '' @ str_int (int (length past) - int j) @ '':'' @ nl
                 @ summary transcript @ nl @ nl)
             (enumerate 0 (rev past)))
          @ ''--- End of Summary ---'' @ nl
    \<and> strict_prefix (fst (generate_openai_instructions (db\<lparr>conversations := []\<rparr>) (Some p)))
        (fst (generate_openai_instructions db (Some p)))"
proof -
  have ne: "get_past_conversations db p 3 \<noteq> []"
    using fetch_nonempty [OF assms(2,3)] by simp
  have out: "generate_openai_instructions db (Some p) =
      (BASE_INSTRUCTIONS @ nl @ RETURNING_CALLER_INSTRUCTIONS @ dynamic_context past, True)"
    using returning_output [OF assms(1) ne] assms(4) by simp
  have split: "(\<lambda>(j, transcript, system_message).
        ''Call '' @ str_int (int (length past) - int j) @ '':'' @ nl
          @ summary transcript @ nl @ nl)
      = (\<lambda>(j, conv). ''Call '' @ str_int (int (length past) - int j) @ '':'' @ nl
          @ summary (fst conv) @ nl @ nl)"
    by (auto simp: fun_eq_iff)
  have dc: "dynamic_context past =
      nl @ ''--- Previous Conversation Summary ---'' @ nl
      @ concat (map (\<lambda>(j, transcript, system_message).
           ''Call '' @ str_int (int (length past) - int j) @ '':'' @ nl
             @ summary transcript @ nl @ nl)
         (enumerate 0 (rev past)))
      @ ''--- End of Summary ---'' @ nl"
    unfolding split by (rule dynamic_context_labels)
  have ne': "past \<noteq> []" using ne assms(4) by simp
  show ?thesis
    using ne' by (simp add: out no_history_output dc strict_prefix_def)
qed

theorem returning_caller_extends_no_history_witness:
  "generate_openai_instructions (two_calls\<lparr>conversations := []\<rparr>) (Some ''+15551234567'')
     = (BASE_INSTRUCTIONS, False)
   \<and> generate_openai_instructions two_calls (Some ''+15551234567'') =
     (BASE_INSTRUCTIONS @ nl @ RETURNING_CALLER_INSTRUCTIONS
        @ nl @ ''--- Previous Conversation Summary ---'' @ nl
        @ ''Call 2:'' @ nl @ ''first'' @ nl @ nl
        @ ''Call 1:'' @ nl @ ''second'' @ nl @ nl
        @ ''--- End of Summary ---'' @ nl, True)
   \<and> strict_prefix
        (fst (generate_openai_instructions (two_calls\<lparr>conversations := []\<rparr>) (Some ''+15551234567'')))
        (fst (generate_openai_instructions two_calls (Some ''+15551234567'')))"
proof -
  let ?c = "\<lparr>cv_id = 1, cv_phone_number = ''+15551234567'', cv_transcript = ''first'',
             cv_system_message = None, cv_timestamp = Some 10\<rparr>"
  have ne: "''+15551234567'' \<noteq> []" by simp
  have mem: "?c \<in> set (conversations two_calls)"
    by (simp add: two_calls_def save_conversation_def empty_database_def next_id_def)
  have ph: "cv_phone_number ?c = ''+15551234567''" by simp
  note inst = returning_caller_extends_no_history
    [OF ne mem ph two_calls_fetch [symmetric]]
  have nh: "generate_openai_instructions (two_calls\<lparr>conversations := []\<rparr>) (Some ''+15551234567'')
     = (BASE_INSTRUCTIONS, False)"
    using inst by blast
  have sn: "snd (generate_openai_instructions two_calls (Some ''+15551234567'')) = True"
    using inst by blast
  have ft: "fst (generate_openai_instructions two_calls (Some ''+15551234567'')) =
     BASE_INSTRUCTIONS @ nl @ RETURNING_CALLER_INSTRUCTIONS
        @ nl @ ''--- Previous Conversation Summary ---'' @ nl
        @ ''Call 2:'' @ nl @ ''first'' @ nl @ nl
        @ ''Call 1:'' @ nl @ ''second'' @ nl @ nl
        @ ''--- End of Summary ---'' @ nl"
    using conjunct1 [OF conjunct2 [OF conjunct2 [OF conjunct2 [OF inst]]]]
    by (simp add: nh enumerate_eq_zip summary_def str_int_def digits.simps)
  have sp: "strict_prefix
        (fst (generate_openai_instructions (two_calls\<lparr>conversations := []\<rparr>) (Some ''+15551234567'')))
        (fst (generate_openai_instructions two_calls (Some ''+15551234567'')))"
    using inst by blast
  show ?thesis using nh sn ft sp by (simp add: prod_eq_iff)
qed

text \<open>
  C6. For a caller (a non-empty phone number) whose fetch \<open>past\<close> is not empty, the
  text returned by \<open>generate_openai_instructions\<close> holds, between the opening and
  the closing line of the digest, one entry for each fetched conversation, and the
  body of the entry is the transcript as it is when it has at most 500 characters,
  and its first 500 characters followed by \<^verbatim>\<open>...\<close> when it has more. For a stored
  transcript of 501 characters the entry holds 500 characters and the marker.
\<close>

theorem digest_entries_truncate_at_500:
  assumes "p \<noteq> []" and "past = get_past_conversations db p 3" and "past \<noteq> []"
  shows "fst (generate_openai_instructions db (Some p)) =
     BASE_INSTRUCTIONS @ nl @ RETURNING_CALLER_INSTRUCTIONS
       @ nl @ ''--- Previous Conversation Summary ---'' @ nl
       @ concat (map (\<lambda>(j, transcript, system_message).
            ''Call '' @ str_int (int (length past) - int j) @ '':'' @ nl
              @ (if length transcript \<le> 500 then transcript
                 else take 500 transcript @ ''...'')
              @ nl @ nl)
          (enumerate 0 (rev past)))
       @ ''--- End of Summary ---'' @ nl"
proof -
  have out: "generate_openai_instructions db (Some p) =
      (BASE_INSTRUCTIONS @ nl @ RETURNING_CALLER_INSTRUCTIONS @ dynamic_context past, True)"
    using returning_output [OF assms(1)] assms(2,3) by simp
  have split: "(\<lambda>(j, transcript, system_message).
        ''Call '' @ str_int (int (length past) - int j) @ '':'' @ nl
          @ (if length transcript \<le> 500 then transcript else take 500 transcript @ ''...'')
          @ nl @ nl)
      = (\<lambda>(j, conv). ''Call '' @ str_int (int (length past) - int j) @ '':'' @ nl
          @ summary (fst conv) @ nl @ nl)"
    by (auto simp: fun_eq_iff summary_def)
  have dc: "dynamic_context past =
      nl @ ''--- Previous Conversation Summary ---'' @ nl
      @ concat (map (\<lambda>(j, transcript, system_message).
           ''Call '' @ str_int (int (length past) - int j) @ '':'' @ nl
             @ (if length transcript \<le> 500 then transcript
                else take 500 transcript @ ''...'')
             @ nl @ nl)
         (enumerate 0 (rev past)))
      @ ''--- End of Summary ---'' @ nl"
    unfolding split by (rule dynamic_context_labels)
  show ?thesis
    by (simp add: out dc)
qed

theorem digest_entries_truncate_at_500_witness:
  "fst (generate_openai_instructions one_long_call (Some ''+15551234567'')) =
     BASE_INSTRUCTIONS @ nl @ RETURNING_CALLER_INSTRUCTIONS
       @ nl @ ''--- Previous Conversation Summary ---'' @ nl
       @ ''Call 1:'' @ nl @ replicate 500 CHR ''a'' @ ''...'' @ nl @ nl
       @ ''--- End of Summary ---'' @ nl
   \<and> fst (generate_openai_instructions two_calls (Some ''+15551234567'')) =
     BASE_INSTRUCTIONS @ nl @ RETURNING_CALLER_INSTRUCTIONS
       @ nl @ ''--- Previous Conversation Summary ---'' @ nl
       @ ''Call 2:'' @ nl @ ''first'' @ nl @ nl
       @ ''Call 1:'' @ nl @ ''second'' @ nl @ nl
       @ ''--- End of Summary ---'' @ nl"
proof -
  have ne: "''+15551234567'' \<noteq> []" by simp
  have long: "[(replicate 501 CHR ''a'', None)] \<noteq> ([] :: (string \<times> string option) list)"
    by simp
  have short: "[(''second'', None), (''first'', None)] \<noteq> ([] :: (string \<times> string option) list)"
    by simp
  show ?thesis
    using digest_entries_truncate_at_500 [OF ne one_long_call_fetch [symmetric] long]
      digest_entries_truncate_at_500 [OF ne two_calls_fetch [symmetric] short]
    by (simp add: enumerate_eq_zip str_int_def digits.simps)
qed

text \<open>
  C7. Whatever the stored state and whatever the phone number (absent, empty or
  present), the text returned by \<open>generate_openai_instructions\<close> starts with
  \<open>BASE_INSTRUCTIONS\<close>.
\<close>

theorem preamble_is_prefix:
  "prefix BASE_INSTRUCTIONS (fst (generate_openai_instructions db phone_number))"
  by (simp add: generate_openai_instructions_def Let_def)

section \<open>Properties of the caller identities\<close>

lemma find_snoc:
  "find P (xs @ [x]) =
     (case find P xs of Some y \<Rightarrow> Some y | None \<Rightarrow> if P x then Some x else None)"
  by (induction xs) auto

lemma find_map_replace:
  assumes "find P xs = Some x" and "P c" and "f x = c" and "\<And>y. f y = y \<or> f y = c"
  shows "find P (map f xs) = Some c"
  using assms(1)
proof (induction xs)
  case Nil
  then show ?case by simp
next
  case (Cons y ys)
  show ?case
  proof (cases "P y")
    case True
    with Cons.prems have "y = x" by simp
    then show ?thesis using assms(2,3) by simp
  next
    case False
    with Cons.prems have rest: "find P ys = Some x" by simp
    from assms(4) [of y] show ?thesis
    proof
      assume "f y = y"
      then show ?thesis using False Cons.IH [OF rest] by simp
    next
      assume "f y = c"
      then show ?thesis using assms(2) by simp
    qed
  qed
qed

lemma query_Some_phone:
  "query_personal_info db p = Some r \<Longrightarrow> pi_phone_number r = p"
  by (auto simp: query_personal_info_def find_Some_iff)

lemma query_after_update:
  assumes "query_personal_info db p = Some r" and "pi_phone_number r' = p"
  shows "query_personal_info
           (db\<lparr>personal_info :=
              map (\<lambda>x. if pi_id x = pi_id r then r' else x) (personal_info db)\<rparr>) p
         = Some r'"
proof -
  have "find (\<lambda>x. pi_phone_number x = p)
          (map (\<lambda>x. if pi_id x = pi_id r then r' else x) (personal_info db)) = Some r'"
    by (rule find_map_replace [where x = r]) (use assms in \<open>auto simp: query_personal_info_def\<close>)
  then show ?thesis by (simp add: query_personal_info_def)
qed

text \<open>
  C4. The claim: for every phone number without an identity record,
  \<open>get_or_create_personal_info\<close> returns no name and leaves exactly one record for
  the number, with no name. This fails when the call identifier passed along is
  already stored on the record of another phone number: the column \<^verbatim>\<open>call_sid\<close> is
  unique, the insert is rejected and the function raises.
\<close>

theorem create_rejected_on_stored_call_sid:
  "query_personal_info db_alice ''+15551230002'' = None
   \<and> get_or_create_personal_info 9 db_alice ''+15551230002'' (Some ''CA1'') = Inl IntegrityError"
  by (simp add: db_alice_def alice_row_def query_personal_info_def
      get_or_create_personal_info_def commit_insert_def)

text \<open>
  C4, amended. For every phone number without an identity record and every call
  identifier that is absent or stored on no record, \<open>get_or_create_personal_info\<close>
  returns no name without raising; afterwards the lookup of the number finds a
  record with that number and no name, it is the only record with that number, and
  nothing else in the stored state has changed.
\<close>

theorem create_for_unknown_number:
  assumes "query_personal_info db p = None"
    and "\<forall>r \<in> set (personal_info db). call_sid = None \<or> pi_call_sid r \<noteq> call_sid"
  shows "\<exists>db' r. get_or_create_personal_info now db p call_sid = Inr (None, db')
           \<and> query_personal_info db' p = Some r
           \<and> pi_phone_number r = p \<and> pi_full_name r = None
           \<and> filter (\<lambda>x. pi_phone_number x = p) (personal_info db') = [r]
           \<and> personal_info db' = personal_info db @ [r]
           \<and> conversations db' = conversations db"
proof -
  have nophone: "\<forall>x \<in> set (personal_info db). pi_phone_number x \<noteq> p"
    using assms(1) by (simp add: query_personal_info_def find_None_iff)
  then have f0: "filter (\<lambda>x. pi_phone_number x = p) (personal_info db) = []"
    by (simp add: filter_empty_conv)
  have ok: "\<not> (list_ex (\<lambda>r. pi_phone_number r = p) (personal_info db)
         \<or> (call_sid \<noteq> None \<and> list_ex (\<lambda>r. pi_call_sid r = call_sid) (personal_info db)))"
    using nophone assms(2) by (auto simp: list_ex_iff)
  show ?thesis
    using assms(1) ok f0
    by (simp add: get_or_create_personal_info_def commit_insert_def query_personal_info_def
        find_snoc)
qed

theorem create_for_unknown_number_witness:
  "\<exists>db' r. get_or_create_personal_info 9 db_alice ''+15551230002'' (Some ''CA2'') = Inr (None, db')
           \<and> query_personal_info db' ''+15551230002'' = Some r
           \<and> pi_phone_number r = ''+15551230002'' \<and> pi_full_name r = None
           \<and> filter (\<lambda>x. pi_phone_number x = ''+15551230002'') (personal_info db') = [r]
           \<and> personal_info db' = personal_info db_alice @ [r]
           \<and> conversations db' = conversations db_alice"
proof -
  have none: "query_personal_info db_alice ''+15551230002'' = None"
    by (simp add: db_alice_def alice_row_def query_personal_info_def)
  have free: "\<forall>r \<in> set (personal_info db_alice).
      Some ''CA2'' = None \<or> pi_call_sid r \<noteq> Some ''CA2''"
    by (simp add: db_alice_def alice_row_def)
  show ?thesis by (rule create_for_unknown_number [OF none free])
qed

text \<open>
  C10. The claim: on an existing record \<open>get_or_create_personal_info\<close> may change
  the stored call identifier and no other field. This fails for the update
  timestamp: \<^verbatim>\<open>updated_at\<close> is declared \<^verbatim>\<open>onupdate=func.now()\<close>, so the commit that
  stores the new call identifier stores the clock as well.
\<close>

theorem refresh_sets_updated_at:
  "query_personal_info db_alice ''+15551230001'' = Some alice_row
   \<and> pi_updated_at alice_row = None
   \<and> get_or_create_personal_info 9 db_alice ''+15551230001'' (Some ''CA2'') =
       Inr (Some ''Alice'',
         \<lparr>personal_info =
            [\<lparr>pi_id = 1, pi_phone_number = ''+15551230001'', pi_call_sid = Some ''CA2'',
              pi_full_name = Some ''Alice'', pi_email = None,
              pi_created_at = Some 5, pi_updated_at = Some 9\<rparr>],
          conversations = []\<rparr>)"
  by (simp add: db_alice_def alice_row_def query_personal_info_def
      get_or_create_personal_info_def commit_update_def)

text \<open>
  C10, amended. For every existing identity record \<open>r\<close>: when a non-empty call
  identifier different from the stored one is supplied and another record already
  holds it, \<open>get_or_create_personal_info\<close> raises and stores nothing. Otherwise it
  returns the stored name, and the record found afterwards has the name and the
  email of \<open>r\<close>; it is \<open>r\<close> itself unless a non-empty, different call identifier was
  supplied, in which case it differs from \<open>r\<close> in the call identifier and the update
  timestamp only.
\<close>

theorem existing_record_frame:
  assumes "query_personal_info db p = Some r"
  shows "if truthy call_sid \<and> pi_call_sid r \<noteq> call_sid
            \<and> list_ex (\<lambda>x. pi_id x \<noteq> pi_id r \<and> pi_call_sid x = call_sid) (personal_info db)
         then get_or_create_personal_info now db p call_sid = Inl IntegrityError
         else (\<exists>db' r'. get_or_create_personal_info now db p call_sid = Inr (pi_full_name r, db')
                \<and> query_personal_info db' p = Some r'
                \<and> pi_full_name r' = pi_full_name r \<and> pi_email r' = pi_email r
                \<and> r' = (if truthy call_sid \<and> pi_call_sid r \<noteq> call_sid
                        then r\<lparr>pi_call_sid := call_sid, pi_updated_at := Some now\<rparr> else r)
                \<and> conversations db' = conversations db)"
proof (cases "truthy call_sid \<and> pi_call_sid r \<noteq> call_sid")
  case False
  then show ?thesis using assms by (auto simp: get_or_create_personal_info_def)
next
  case True
  then have some: "call_sid \<noteq> None" by (cases call_sid) auto
  have ph: "pi_phone_number r = p" using assms by (rule query_Some_phone)
  show ?thesis
  proof (cases "list_ex (\<lambda>x. pi_id x \<noteq> pi_id r \<and> pi_call_sid x = call_sid) (personal_info db)")
    case taken: True
    then show ?thesis using True some assms
      by (auto simp: get_or_create_personal_info_def commit_update_def)
  next
    case free: False
    let ?r' = "r\<lparr>pi_call_sid := call_sid, pi_updated_at := Some now\<rparr>"
    let ?db' = "db\<lparr>personal_info :=
        map (\<lambda>x. if pi_id x = pi_id r then ?r' else x) (personal_info db)\<rparr>"
    have "commit_update now db r (r\<lparr>pi_call_sid := call_sid\<rparr>) = Inr ?db'"
      using free by (simp add: commit_update_def)
    then have res: "get_or_create_personal_info now db p call_sid = Inr (pi_full_name r, ?db')"
      using True assms by (simp add: get_or_create_personal_info_def)
    have "query_personal_info ?db' p = Some ?r'"
      by (rule query_after_update [OF assms]) (simp add: ph)
    then show ?thesis using res True free by simp
  qed
qed

theorem existing_record_frame_witness:
  "query_personal_info db_alice ''+15551230001'' = Some alice_row
   \<and> (\<exists>db' r'. get_or_create_personal_info 9 db_alice ''+15551230001'' (Some ''CA2'')
          = Inr (Some ''Alice'', db')
        \<and> query_personal_info db' ''+15551230001'' = Some r'
        \<and> pi_full_name r' = Some ''Alice'' \<and> pi_email r' = None
        \<and> r' = alice_row\<lparr>pi_call_sid := Some ''CA2'', pi_updated_at := Some 9\<rparr>)"
proof -
  have q: "query_personal_info db_alice ''+15551230001'' = Some alice_row"
    by (simp add: db_alice_def alice_row_def query_personal_info_def)
  have a: "pi_full_name alice_row = Some ''Alice''" "pi_email alice_row = None"
    "pi_call_sid alice_row = Some ''CA1''" "personal_info db_alice = [alice_row]"
    by (simp_all add: db_alice_def alice_row_def)
  show ?thesis
    using existing_record_frame [OF q, of "Some ''CA2''" 9] q
    by (auto simp: a)
qed

text \<open>
  C8. The claim: \<open>update_personal_info\<close> modifies only the supplied fields that
  differ from the stored values and leaves every other field as it was. This fails
  for the update timestamp: an email is supplied, no timestamp is, and the commit
  that stores the email stores the clock in \<^verbatim>\<open>updated_at\<close> as well.
\<close>

theorem update_sets_updated_at:
  "query_personal_info db_alice ''+15551230001'' = Some alice_row
   \<and> pi_updated_at alice_row = None
   \<and> update_personal_info 9 db_alice ''+15551230001'' None (Some ''alice@example.com'') =
       Inr (True,
         \<lparr>personal_info =
            [\<lparr>pi_id = 1, pi_phone_number = ''+15551230001'', pi_call_sid = Some ''CA1'',
              pi_full_name = Some ''Alice'', pi_email = Some ''alice@example.com'',
              pi_created_at = Some 5, pi_updated_at = Some 9\<rparr>],
          conversations = []\<rparr>)"
  by (simp add: db_alice_def alice_row_def query_personal_info_def
      update_personal_info_def commit_update_def)

text \<open>
  C8, amended. \<open>update_personal_info\<close> never raises. When no record has the phone
  number it returns false and the stored state is unchanged. When the record \<open>r\<close>
  has it, the result is true exactly when a non-empty name different from the
  stored name or a non-empty email different from the stored email was supplied;
  when it is false the stored state is unchanged; the record found afterwards is
  \<open>r\<close> with the name replaced if a non-empty name was supplied, the email replaced
  if a non-empty email was supplied, and the update timestamp set to the clock if
  the result is true: the id, the phone number, the call identifier and the
  creation timestamp are those of \<open>r\<close>.
\<close>

theorem update_personal_info_frame:
  "\<exists>changed db'. update_personal_info now db p name email = Inr (changed, db')
     \<and> conversations db' = conversations db
     \<and> (case query_personal_info db p of
          None \<Rightarrow> \<not> changed \<and> db' = db
        | Some r \<Rightarrow>
            changed = ((truthy name \<and> pi_full_name r \<noteq> name) \<or> (truthy email \<and> pi_email r \<noteq> email))
            \<and> (\<not> changed \<longrightarrow> db' = db)
            \<and> query_personal_info db' p =
                Some (r\<lparr>pi_full_name := (if truthy name then name else pi_full_name r),
                        pi_email := (if truthy email then email else pi_email r),
                        pi_updated_at := (if changed then Some now else pi_updated_at r)\<rparr>))"
proof (cases "query_personal_info db p")
  case None
  then show ?thesis by (auto simp: update_personal_info_def)
next
  case (Some r)
  have ph: "pi_phone_number r = p" using Some by (rule query_Some_phone)
  have q: "\<And>r'. pi_phone_number r' = p \<Longrightarrow>
      query_personal_info (db\<lparr>personal_info :=
        map (\<lambda>x. if pi_id x = pi_id r then r' else x) (personal_info db)\<rparr>) p = Some r'"
    by (rule query_after_update [OF Some])
  show ?thesis
    using Some by (auto simp: update_personal_info_def Let_def commit_update_def q ph)
qed

theorem update_personal_info_frame_witness:
  "\<exists>db'. update_personal_info 9 db_alice ''+15551230001'' (Some ''Alice'') (Some ''alice@example.com'')
            = Inr (True, db')
     \<and> query_personal_info db' ''+15551230001'' =
         Some (alice_row\<lparr>pi_email := Some ''alice@example.com'', pi_updated_at := Some 9\<rparr>)"
proof -
  have q: "query_personal_info db_alice ''+15551230001'' = Some alice_row"
    by (simp add: db_alice_def alice_row_def query_personal_info_def)
  have a: "pi_full_name alice_row = Some ''Alice''" "pi_email alice_row = None"
    by (simp_all add: alice_row_def)
  have eq: "alice_row\<lparr>pi_full_name := Some ''Alice''\<rparr> = alice_row"
    by (simp add: alice_row_def)
  show ?thesis
    using update_personal_info_frame
      [of 9 db_alice "''+15551230001''" "Some ''Alice''" "Some ''alice@example.com''"]
    by (auto simp: q a eq)
qed

section \<open>Properties of the webhook handlers\<close>














text \<open>
  C9. When the form of an inbound request can be read and parsed, and it has no
  \<^verbatim>\<open>CallSid\<close> or yields no caller number, both inbound handlers return the fixed
  markup that speaks \<^verbatim>\<open>Error processing call.\<close> and leave the stored state as it was.
\<close>

theorem inbound_missing_fields:
  assumes "form req = Inr form_data" and "parse_twilio_request env req = Inr data"
    and "\<not> truthy (form_data ''CallSid'') \<or> \<not> truthy (d_from_number data)"
  shows "handle_incoming env now req db
           = (Response ''<Response><Say>Error processing call.</Say></Response>'' xml, db)
       \<and> handle_agent_incoming env now req db
           = (Response ''<Response><Say>Error processing call.</Say></Response>'' xml, db)"
proof -
  have "d_call_sid data = form_data ''CallSid''"
    using assms(1,2)
    by (auto simp: parse_twilio_request_def Let_def split: sum.splits if_splits)
  then have "\<not> truthy (d_call_sid data) \<or> \<not> truthy (d_from_number data)"
    using assms(3) by simp
  then show ?thesis using assms(2)
    by (auto simp: handle_incoming_def handle_agent_incoming_def)
qed

theorem inbound_missing_fields_witness:
  "handle_incoming env0 9 req_no_call_sid db_alice
     = (Response ''<Response><Say>Error processing call.</Say></Response>'' xml, db_alice)
   \<and> handle_agent_incoming env0 9 req_no_call_sid db_alice
     = (Response ''<Response><Say>Error processing call.</Say></Response>'' xml, db_alice)"
proof -
  have f: "form req_no_call_sid = Inr [''From'' \<mapsto> ''+15551234567'']"
    by (simp add: req_no_call_sid_def)
  have p: "parse_twilio_request env0 req_no_call_sid =
      Inr \<lparr>d_call_sid = None, d_from_number = Some ''+15551234567'', d_to_number = None,
           d_speech_result = None\<rparr>"
    by (simp add: parse_twilio_request_def clean_number_def env0_def req_no_call_sid_def)
  have m: "\<not> truthy ([''From'' \<mapsto> ''+15551234567''] ''CallSid'')
      \<or> \<not> truthy (d_from_number \<lparr>d_call_sid = None, d_from_number = Some ''+15551234567'',
           d_to_number = None, d_speech_result = None\<rparr>)"
    by simp
  show ?thesis by (rule inbound_missing_fields [OF f p m])
qed

section \<open>Properties of the streaming endpoint\<close>

lemma session_stop_stopped:
  "s_state (snd (session_stop s)) = STOPPED \<and> fst (session_stop s) = None"
  by (simp add: session_stop_def)

lemma session_stop_idem:
  "session_stop (snd (session_stop s)) = (None, snd (session_stop s))"
  by (simp add: session_stop_def)

text \<open>
  C3. Once the handshake has succeeded, every run of \<open>media_stream_endpoint\<close> on a
  session calls \<^verbatim>\<open>stop\<close> after \<^verbatim>\<open>start\<close>, whatever \<^verbatim>\<open>start\<close> does: once when it
  returns or the task is cancelled, twice when it raises (the carrier's disconnect
  included). No call of \<^verbatim>\<open>stop\<close> raises: the endpoint raises nothing but a
  cancellation it received. The session is left \<^verbatim>\<open>STOPPED\<close>, its resources have been
  released once if \<^verbatim>\<open>start\<close> left it not stopped and not at all otherwise, and one
  more call of \<^verbatim>\<open>stop\<close> raises nothing and changes nothing.
\<close>

theorem endpoint_always_stops:
  "\<exists>r h' calls.
     media_stream_endpoint None (session_ops run) h = (r, Some h', calls)
     \<and> (calls = [Start, Stop] \<or> calls = [Start, Stop, Stop])
     \<and> (calls = [Start, Stop, Stop]) = (\<exists>e. fst (run h) = Some (Exception e))
     \<and> r = (if fst (run h) = Some CancelledError then Some CancelledError else None)
     \<and> s_state h' = STOPPED
     \<and> s_releases h' =
         s_releases (snd (run h)) + (if s_state (snd (run h)) = STOPPED then 0 else 1)
     \<and> session_stop h' = (None, h')"
proof -
  obtain r1 h1 where run: "run h = (r1, h1)" by (cases "run h")
  show ?thesis
  proof (cases r1)
    case None
    then show ?thesis using run
      by (simp add: media_stream_endpoint_def session_ops_def session_stop_def)
  next
    case (Some x)
    show ?thesis
    proof (cases x)
      case (Exception e)
      then show ?thesis using run Some
        by (simp add: media_stream_endpoint_def session_ops_def session_stop_def)
    next
      case CancelledError
      then show ?thesis using run Some
        by (simp add: media_stream_endpoint_def session_ops_def session_stop_def)
    qed
  qed
qed

theorem endpoint_always_stops_witness:
  "media_stream_endpoint None (session_ops run_until_disconnect)
       (RealtimeOpenAIHandler ''CA123'' ''+15551234567'')
     = (None,
        Some \<lparr>s_call_sid = ''CA123'', s_phone_number = ''+15551234567'', s_state = STOPPED,
              s_releases = 1\<rparr>,
        [Start, Stop, Stop])"
  using endpoint_always_stops [of run_until_disconnect "RealtimeOpenAIHandler ''CA123'' ''+15551234567''"]
  by (simp add: media_stream_endpoint_def session_ops_def session_stop_def
      run_until_disconnect_def RealtimeOpenAIHandler_def)

end
